theory Spec2Isabelle
  imports Complex_Main "HOL-Library.Sublist"
begin

section \<open>Python values\<close>

text \<open>
  The handler of \<^verbatim>\<open>src/main.py\<close> works on dynamically typed values: the parsed
  JSON body of the request, the \<^verbatim>\<open>content\<close> of the agent's answer, the attributes of the
  transcript messages, the parsed body of the image-search reply. \<open>pyval\<close> is the Python
  value such a place can hold: what \<^verbatim>\<open>json.loads\<close> builds. A dict is the list of its
  items in insertion order, each key once, read with \<open>map_of\<close>. A float is given by
  its real value, which is all that \<^verbatim>\<open>not content\<close> looks at.
\<close>

datatype pyval =
    PNone
  | PBool bool
  | PInt int
  | PFloat real
  | PStr string
  | PList "pyval list"
  | PDict "(string \<times> pyval) list"

text \<open>Python's truth test, as \<^verbatim>\<open>not content\<close> (line 158) applies it.\<close>

fun truthy :: "pyval \<Rightarrow> bool" where
  "truthy PNone = False"
| "truthy (PBool b) = b"
| "truthy (PInt i) = (i \<noteq> 0)"
| "truthy (PFloat r) = (r \<noteq> 0)"
| "truthy (PStr s) = (s \<noteq> [])"
| "truthy (PList xs) = (xs \<noteq> [])"
| "truthy (PDict kvs) = (kvs \<noteq> [])"

fun type_name :: "pyval \<Rightarrow> string" where
  "type_name PNone = ''NoneType''"
| "type_name (PBool b) = ''bool''"
| "type_name (PInt i) = ''int''"
| "type_name (PFloat r) = ''float''"
| "type_name (PStr s) = ''str''"
| "type_name (PList xs) = ''list''"
| "type_name (PDict kvs) = ''dict''"

section \<open>Exceptions\<close>

text \<open>
  \<open>exn\<close> is an instance of Python's \<^verbatim>\<open>Exception\<close>: what both
  \<^verbatim>\<open>except Exception\<close> clauses of the handler catch. \<open>HTTPException\<close> carries
  \<^verbatim>\<open>status_code\<close> and \<^verbatim>\<open>detail\<close>; \<open>Exception\<close> is the plain class raised at line 61;
  \<open>OtherError\<close> is any other subclass, given by its class name and its message.
  A function that can raise returns \<open>exn + 'a\<close>, with \<open>Inl\<close> for the raised exception.
\<close>

datatype exn =
    HTTPException nat string
  | Exception string
  | AttributeError string
  | KeyError string
  | TypeError string
  | OtherError string string

text \<open>Decimal digits of an integer, as the f-strings of lines 61, 176 and 184 print it.\<close>

fun str_nat :: "nat \<Rightarrow> string" where
  "str_nat n =
     (if n < 10 then [''0123456789'' ! n]
      else str_nat (n div 10) @ [''0123456789'' ! (n mod 10)])"

declare str_nat.simps [simp del]

definition str_int :: "int \<Rightarrow> string" where
  "str_int i = (if i < 0 then ''-'' @ str_nat (nat (- i)) else str_nat (nat i))"

text \<open>
  \<^verbatim>\<open>repr(s)\<close> of a string, which is what a \<^verbatim>\<open>KeyError\<close> prints of its key: single
  quotes, or double quotes when the string holds a single quote and no double quote;
  the quote in use and the backslash are escaped, tab, newline and carriage return are
  written \<^verbatim>\<open>\t\<close>, \<^verbatim>\<open>\n\<close>, \<^verbatim>\<open>\r\<close>, and any other control character is written
  \<^verbatim>\<open>\xhh\<close>. A character beyond ASCII is a byte of a printable code point and is kept.
\<close>

definition hex_digit :: "nat \<Rightarrow> char" where
  "hex_digit n = ''0123456789abcdef'' ! n"

definition repr_char :: "char \<Rightarrow> char \<Rightarrow> string" where
  "repr_char quote c =
     (if c = quote \<or> c = CHR 0x5C then [CHR 0x5C, c]
      else if c = CHR 0x09 then [CHR 0x5C, CHR ''t'']
      else if c = CHR 0x0A then [CHR 0x5C, CHR ''n'']
      else if c = CHR 0x0D then [CHR 0x5C, CHR ''r'']
      else if (of_char c :: nat) < 32 \<or> c = CHR 0x7F
        then [CHR 0x5C, CHR ''x'', hex_digit ((of_char c :: nat) div 16),
              hex_digit ((of_char c :: nat) mod 16)]
      else [c])"

definition py_repr :: "string \<Rightarrow> string" where
  "py_repr s =
     (let quote = (if CHR 0x27 \<in> set s \<and> CHR 0x22 \<notin> set s then CHR 0x22 else CHR 0x27)
      in [quote] @ concat (map (repr_char quote) s) @ [quote])"

text \<open>
  \<^verbatim>\<open>str(e)\<close>. An exception built from one message prints that message; a
  \<^verbatim>\<open>KeyError\<close> prints the repr of its key; Starlette's \<^verbatim>\<open>HTTPException\<close> prints
  \<^verbatim>\<open>f"{self.status_code}: {self.detail}"\<close>.
\<close>

fun str_exn :: "exn \<Rightarrow> string" where
  "str_exn (HTTPException code d) = str_nat code @ '': '' @ d"
| "str_exn (Exception msg) = msg"
| "str_exn (AttributeError msg) = msg"
| "str_exn (KeyError k) = py_repr k"
| "str_exn (TypeError msg) = msg"
| "str_exn (OtherError cls msg) = msg"

text \<open>\<^verbatim>\<open>isinstance(e, HTTPException)\<close>: what the clause of line 178 catches.\<close>

fun is_HTTPException :: "exn \<Rightarrow> bool" where
  "is_HTTPException (HTTPException code d) = True"
| "is_HTTPException e = False"

section \<open>Operations on values\<close>

text \<open>
  \<^verbatim>\<open>v.get(k, d)\<close>: a dict answers with the entry or the default; any other JSON value
  has no \<^verbatim>\<open>get\<close> and the attribute access raises.
\<close>

fun py_get :: "pyval \<Rightarrow> string \<Rightarrow> pyval \<Rightarrow> exn + pyval" where
  "py_get (PDict kvs) k d = Inr (case map_of kvs k of Some v \<Rightarrow> v | None \<Rightarrow> d)"
| "py_get v k d =
     Inl (AttributeError
       ([CHR 0x27] @ type_name v @ ''' object has no attribute 'get'' @ [CHR 0x27]))"

text \<open>\<^verbatim>\<open>v[k]\<close> for a string key \<open>k\<close>.\<close>

fun py_getitem :: "pyval \<Rightarrow> string \<Rightarrow> exn + pyval" where
  "py_getitem (PDict kvs) k = (case map_of kvs k of Some v \<Rightarrow> Inr v | None \<Rightarrow> Inl (KeyError k))"
| "py_getitem (PStr s) k = Inl (TypeError (''string indices must be integers, not 'str'' @ [CHR 0x27]))"
| "py_getitem (PList xs) k = Inl (TypeError ''list indices must be integers or slices, not str'')"
| "py_getitem v k =
     Inl (TypeError ([CHR 0x27] @ type_name v @ ''' object is not subscriptable''))"

text \<open>
  The elements a \<^verbatim>\<open>for\<close> loop visits: the items of a list, the characters of a string,
  the keys of a dict; nothing else that JSON holds is iterable.
\<close>

fun py_iter :: "pyval \<Rightarrow> exn + pyval list" where
  "py_iter (PList xs) = Inr xs"
| "py_iter (PStr s) = Inr (map (\<lambda>c. PStr [c]) s)"
| "py_iter (PDict kvs) = Inr (map (\<lambda>kv. PStr (fst kv)) kvs)"
| "py_iter v = Inl (TypeError ([CHR 0x27] @ type_name v @ ''' object is not iterable''))"

section \<open>The image-search adapter\<close>

text \<open>
  \<^verbatim>\<open>requests.get\<close> is the environment: a function from the URL and the parameters to
  either a raised exception or a reply. A reply has its \<^verbatim>\<open>status_code\<close>, its
  \<^verbatim>\<open>text\<close> and the outcome of calling \<^verbatim>\<open>response.json()\<close> on it, which raises when the
  body is not JSON. The adapter returns its result together with the operations it
  performed on the environment, in order.
\<close>

record reply =
  status_code :: int
  response_text :: string
  response_json :: "exn + pyval"

datatype effect =
    HttpGet string "(string \<times> pyval) list"
  | JsonParse

record GoogleImageSearchTools =
  api_key :: pyval
  cse_id :: pyval

text \<open>The comprehension of line 64: \<^verbatim>\<open>[item['link'] for item in ...]\<close>.\<close>

fun image_urls :: "pyval list \<Rightarrow> exn + pyval list" where
  "image_urls [] = Inr []"
| "image_urls (item # items) =
     (case py_getitem item ''link'' of
        Inl e \<Rightarrow> Inl e
      | Inr link \<Rightarrow>
          (case image_urls items of
             Inl e \<Rightarrow> Inl e
           | Inr links \<Rightarrow> Inr (link # links)))"

text \<open>The request of lines 49 to 58: a fixed endpoint, and the query with the toolkit's keys.\<close>

definition base_url :: string where
  "base_url = ''https://www.googleapis.com/customsearch/v1''"

definition params :: "GoogleImageSearchTools \<Rightarrow> string \<Rightarrow> (string \<times> pyval) list" where
  "params self query =
     [(''q'', PStr query), (''key'', api_key self), (''cx'', cse_id self),
      (''searchType'', PStr ''image''), (''num'', PInt 3)]"

definition search_images ::
  "(string \<Rightarrow> (string \<times> pyval) list \<Rightarrow> exn + reply) \<Rightarrow> GoogleImageSearchTools
     \<Rightarrow> string \<Rightarrow> (exn + pyval list) \<times> effect list" where
  "search_images requests_get self query =
     (let sent = [HttpGet base_url (params self query)]
      in case requests_get base_url (params self query) of
           Inl e \<Rightarrow> (Inl e, sent)
         | Inr response \<Rightarrow>
             if status_code response \<noteq> 200
             then (Inl (Exception (''Google API Error: '' @ str_int (status_code response)
                         @ '' - '' @ response_text response)), sent)
             else (case response_json response of
                     Inl e \<Rightarrow> (Inl e, sent @ [JsonParse])
                   | Inr results \<Rightarrow>
                       (case py_get results ''items'' (PList []) of
                          Inl e \<Rightarrow> (Inl e, sent @ [JsonParse])
                        | Inr items \<Rightarrow>
                            (case py_iter items of
                               Inl e \<Rightarrow> (Inl e, sent @ [JsonParse])
                             | Inr its \<Rightarrow> (image_urls its, sent @ [JsonParse])))))"

section \<open>The agent\<close>

text \<open>
  \<^verbatim>\<open>agent\<close> (line 73) is one module-level object, built when the module is loaded and
  used by every request. Of its state the handler reads \<^verbatim>\<open>agent.memory.messages\<close>; the
  rest is \<open>internals\<close>. A message is an object, given by its attributes.
  \<^verbatim>\<open>agent.run\<close> belongs to the agent framework: it is a parameter, a function from
  the agent's state and the task to a raised exception or a response, and the new state.
\<close>

type_synonym message = "(string \<times> pyval) list"

record 'i agent_state =
  memory_messages :: "message list"
  internals :: 'i

record run_response =
  content :: pyval

type_synonym 'i agent =
  "'i agent_state \<Rightarrow> pyval \<Rightarrow> (exn + run_response) \<times> 'i agent_state"

definition hasattr :: "message \<Rightarrow> string \<Rightarrow> bool" where
  "hasattr msg a = (map_of msg a \<noteq> None)"

definition getattr :: "message \<Rightarrow> string \<Rightarrow> exn + pyval" where
  "getattr msg a =
     (case map_of msg a of
        Some v \<Rightarrow> Inr v
      | None \<Rightarrow> Inl (AttributeError (''object has no attribute '' @ [CHR 0x27] @ a @ [CHR 0x27])))"

text \<open>The comprehension of lines 166 to 170.\<close>

fun serializable_messages :: "message list \<Rightarrow> exn + pyval list" where
  "serializable_messages [] = Inr []"
| "serializable_messages (msg # msgs) =
     (if hasattr msg ''role'' \<and> hasattr msg ''content'' then
        (case getattr msg ''role'' of
           Inl e \<Rightarrow> Inl e
         | Inr r \<Rightarrow>
             (case getattr msg ''content'' of
                Inl e \<Rightarrow> Inl e
              | Inr c \<Rightarrow>
                  (case serializable_messages msgs of
                     Inl e \<Rightarrow> Inl e
                   | Inr rest \<Rightarrow> Inr (PDict [(''role'', r), (''content'', c)] # rest))))
      else serializable_messages msgs)"

section \<open>The handler of POST /generate\<close>

text \<open>
  A request is given by the outcome of \<^verbatim>\<open>await request.json()\<close>: the parsed body, or
  the exception the parser raised. The handler returns the value it returns or the
  exception it raises, and the agent's state after the call. The \<^verbatim>\<open>print\<close> calls
  write to the console only and are left out.
\<close>

record request =
  request_json :: "exn + pyval"

text \<open>
  The inner \<^verbatim>\<open>try\<close> (lines 162 to 176), entered with the truthy \<^verbatim>\<open>content\<close> as \<open>task\<close>.
  Its \<^verbatim>\<open>except Exception\<close> clause catches whatever the block raises.
\<close>

definition run_agent :: "'i agent \<Rightarrow> 'i agent_state \<Rightarrow> pyval \<Rightarrow> (exn + pyval) \<times> 'i agent_state" where
  "run_agent agent_run s task =
     (case agent_run s task of
        (Inl e, s') \<Rightarrow>
          (Inl (HTTPException 500 (''An error occurred during generation: '' @ str_exn e)), s')
      | (Inr response, s') \<Rightarrow>
          (case serializable_messages (memory_messages s') of
             Inl e \<Rightarrow>
               (Inl (HTTPException 500 (''An error occurred during generation: '' @ str_exn e)), s')
           | Inr msgs \<Rightarrow>
               (Inr (PDict [(''html_content'', content response), (''messages'', PList msgs)]), s')))"

text \<open>The body of the outer \<^verbatim>\<open>try\<close> (lines 155 to 176).\<close>

definition try_body :: "'i agent \<Rightarrow> 'i agent_state \<Rightarrow> request \<Rightarrow> (exn + pyval) \<times> 'i agent_state" where
  "try_body agent_run s req =
     (case request_json req of
        Inl e \<Rightarrow> (Inl e, s)
      | Inr data \<Rightarrow>
          (case py_get data ''content'' PNone of
             Inl e \<Rightarrow> (Inl e, s)
           | Inr task \<Rightarrow>
               if \<not> truthy task
               then (Inl (HTTPException 400 ''Missing 'content' in request body''), s)
               else run_agent agent_run s task))"

text \<open>
  The two outer \<^verbatim>\<open>except\<close> clauses (lines 178 to 184), in the order Python tries
  them: an \<^verbatim>\<open>HTTPException\<close> is raised again, anything else is wrapped.
\<close>

fun outer_except :: "exn \<Rightarrow> exn" where
  "outer_except (HTTPException code d) = HTTPException code d"
| "outer_except e = HTTPException 500 (''Failed to process request: '' @ str_exn e)"

definition generate_notes :: "'i agent \<Rightarrow> 'i agent_state \<Rightarrow> request \<Rightarrow> (exn + pyval) \<times> 'i agent_state" where
  "generate_notes agent_run s req =
     (case try_body agent_run s req of
        (Inl e, s') \<Rightarrow> (Inl (outer_except e), s')
      | (Inr v, s') \<Rightarrow> (Inr v, s'))"

section \<open>The route\<close>

text \<open>
  The decorator of line 148 registers the handler with
  \<^verbatim>\<open>response_model=HtmlResponse\<close> (lines 26 to 28). The framework answers an
  \<^verbatim>\<open>HTTPException\<close> of the handler with its status code and the body
  \<^verbatim>\<open>{"detail": detail}\<close>, or with no body when the status code allows none (below 200,
  204, 205, 304); it validates a returned value against the response model and
  answers 200 with the model's fields, or 500 when the value does not fit the model.
  A body that is not JSON is given by its text: \<^verbatim>\<open>Internal Server Error\<close>, or the empty
  text of a response without body.
\<close>

record HtmlResponse =
  html_content :: string
  messages :: "pyval list"

definition HtmlResponse_validate :: "pyval \<Rightarrow> HtmlResponse option" where
  "HtmlResponse_validate v =
     (case v of
        PDict kvs \<Rightarrow>
          (case (map_of kvs ''html_content'', map_of kvs ''messages'') of
             (Some (PStr h), Some (PList ms)) \<Rightarrow> Some \<lparr>html_content = h, messages = ms\<rparr>
           | _ \<Rightarrow> None)
      | _ \<Rightarrow> None)"

definition HtmlResponse_dump :: "HtmlResponse \<Rightarrow> pyval" where
  "HtmlResponse_dump r = PDict [(''html_content'', PStr (html_content r)), (''messages'', PList (messages r))]"

record http_response =
  status :: nat
  body :: pyval

definition is_body_allowed_for_status_code :: "nat \<Rightarrow> bool" where
  "is_body_allowed_for_status_code code = (\<not> (code < 200 \<or> code = 204 \<or> code = 205 \<or> code = 304))"

definition post_generate :: "'i agent \<Rightarrow> 'i agent_state \<Rightarrow> request \<Rightarrow> http_response \<times> 'i agent_state" where
  "post_generate agent_run s req =
     (case generate_notes agent_run s req of
        (Inl (HTTPException code d), s') \<Rightarrow>
          (if is_body_allowed_for_status_code code
           then (\<lparr>status = code, body = PDict [(''detail'', PStr d)]\<rparr>, s')
           else (\<lparr>status = code, body = PStr []\<rparr>, s'))
      | (Inl e, s') \<Rightarrow> (\<lparr>status = 500, body = PStr ''Internal Server Error''\<rparr>, s')
      | (Inr v, s') \<Rightarrow>
          (case HtmlResponse_validate v of
             Some r \<Rightarrow> (\<lparr>status = 200, body = HtmlResponse_dump r\<rparr>, s')
           | None \<Rightarrow> (\<lparr>status = 500, body = PStr ''Internal Server Error''\<rparr>, s')))"

text \<open>
  The process serves its requests one after the other on the same agent object: the
  state a request finds is the state the requests before it left.
\<close>

fun state_after :: "'i agent \<Rightarrow> 'i agent_state \<Rightarrow> request list \<Rightarrow> 'i agent_state" where
  "state_after agent_run s [] = s"
| "state_after agent_run s (req # reqs) =
     state_after agent_run (snd (post_generate agent_run s req)) reqs"

section \<open>The properties in the words of the specification\<close>

text \<open>
  The message list the specification describes: the role and content of every message
  that exposes both attributes, in the order of the transcript.
\<close>

definition exposes_both :: "message \<Rightarrow> bool" where
  "exposes_both msg = (map_of msg ''role'' \<noteq> None \<and> map_of msg ''content'' \<noteq> None)"

definition projection :: "message \<Rightarrow> pyval" where
  "projection msg =
     PDict [(''role'', case map_of msg ''role'' of Some v \<Rightarrow> v | None \<Rightarrow> PNone),
            (''content'', case map_of msg ''content'' of Some v \<Rightarrow> v | None \<Rightarrow> PNone)]"

definition messages_spec :: "message list \<Rightarrow> pyval list" where
  "messages_spec msgs = map projection (filter exposes_both msgs)"

text \<open>An item of the search result that holds a \<^verbatim>\<open>link\<close> key, and the link it holds.\<close>

fun has_link :: "pyval \<Rightarrow> bool" where
  "has_link (PDict kvs) = (map_of kvs ''link'' \<noteq> None)"
| "has_link v = False"

fun link_of :: "pyval \<Rightarrow> pyval" where
  "link_of (PDict kvs) = (case map_of kvs ''link'' of Some v \<Rightarrow> v | None \<Rightarrow> PNone)"
| "link_of v = PNone"

section \<open>What a response shows of the agent\<close>

text \<open>
  The content the handler passes to \<^verbatim>\<open>agent.run\<close> (lines 155 to 163), if the request
  gets that far: the body was read, it is an object, and its \<^verbatim>\<open>content\<close> is truthy.
\<close>

definition request_task :: "request \<Rightarrow> pyval option" where
  "request_task req =
     (case request_json req of
        Inl e \<Rightarrow> None
      | Inr data \<Rightarrow>
          (case py_get data ''content'' PNone of
             Inl e \<Rightarrow> None
           | Inr task \<Rightarrow> if truthy task then Some task else None))"

text \<open>
  What the inner \<^verbatim>\<open>try\<close> (lines 162 to 176) reads of a run of the agent: of a run
  that raises, the \<^verbatim>\<open>str\<close> of the exception; of a run that returns, the
  \<^verbatim>\<open>content\<close> of the response and, of the memory the run left, the role and content
  of the messages that expose both, in order.
\<close>

definition observed :: "(exn + run_response) \<times> 'i agent_state \<Rightarrow> string + pyval \<times> pyval list" where
  "observed outcome =
     (case outcome of
        (Inl e, s') \<Rightarrow> Inl (str_exn e)
      | (Inr response, s') \<Rightarrow> Inr (content response, messages_spec (memory_messages s')))"

section \<open>Environments to run the code on\<close>

text \<open>
  Three agents: one whose memory keeps the messages of every run, one that leaves a
  given memory and answers with a given content whatever it ran before, one whose run
  raises. And an image-search service that answers every query with the same reply.
\<close>

definition recording_agent :: "unit agent" where
  "recording_agent s task =
     (Inr \<lparr>content = PStr ''<p>notes</p>''\<rparr>,
      s\<lparr>memory_messages := memory_messages s @
           [[(''role'', PStr ''user''), (''content'', task)],
            [(''role'', PStr ''assistant''), (''content'', PStr ''<p>notes</p>'')]]\<rparr>)"

definition replying_agent :: "pyval \<Rightarrow> message list \<Rightarrow> nat agent" where
  "replying_agent answer msgs s task =
     (Inr \<lparr>content = answer\<rparr>, \<lparr>memory_messages = msgs, internals = Suc (internals s)\<rparr>)"

definition raising_agent :: "exn \<Rightarrow> unit agent" where
  "raising_agent e s task = (Inl e, s)"

definition answering :: "reply \<Rightarrow> string \<Rightarrow> (string \<times> pyval) list \<Rightarrow> exn + reply" where
  "answering r url ps = Inr r"

section \<open>Lemmas about the handler\<close>

lemma try_body_missing:
  assumes "request_json req = Inr (PDict kvs)"
      and "case map_of kvs ''content'' of None \<Rightarrow> True | Some v \<Rightarrow> \<not> truthy v"
  shows "try_body agent_run s req
           = (Inl (HTTPException 400 ''Missing 'content' in request body''), s)"
  using assms by (auto simp: try_body_def split: option.splits)

lemma getattr_present: "map_of msg a = Some v \<Longrightarrow> getattr msg a = Inr v"
  by (simp add: getattr_def)

lemma hasattr_both:
  "(hasattr msg ''role'' \<and> hasattr msg ''content'') = exposes_both msg"
  by (simp add: hasattr_def exposes_both_def)

lemma serializable_messages_spec: "serializable_messages msgs = Inr (messages_spec msgs)"
proof (induction msgs)
  case Nil
  show ?case by (simp add: messages_spec_def)
next
  case (Cons msg msgs)
  show ?case
  proof (cases "exposes_both msg")
    case True
    then obtain r c where rc: "map_of msg ''role'' = Some r" "map_of msg ''content'' = Some c"
      by (auto simp: exposes_both_def)
    have "projection msg = PDict [(''role'', r), (''content'', c)]"
      by (simp add: projection_def rc)
    with Cons True rc show ?thesis
      by (simp add: messages_spec_def hasattr_both getattr_present)
  next
    case False
    with Cons show ?thesis
      by (simp add: messages_spec_def hasattr_both)
  qed
qed

lemma run_agent_raises:
  "agent_run s task = (Inl e, s') \<Longrightarrow>
   run_agent agent_run s task
     = (Inl (HTTPException 500 (''An error occurred during generation: '' @ str_exn e)), s')"
  by (simp add: run_agent_def)

lemma run_agent_returns:
  "agent_run s task = (Inr response, s') \<Longrightarrow>
   run_agent agent_run s task
     = (Inr (PDict [(''html_content'', content response),
                    (''messages'', PList (messages_spec (memory_messages s')))]), s')"
  by (simp add: run_agent_def serializable_messages_spec)

lemma try_body_reaches_agent:
  "request_json req = Inr data \<Longrightarrow> py_get data ''content'' PNone = Inr task \<Longrightarrow> truthy task \<Longrightarrow>
   try_body agent_run s req = run_agent agent_run s task"
  by (simp add: try_body_def)

lemma generate_notes_success:
  assumes "generate_notes agent_run s req = (Inr v, s')"
  shows "\<exists>data task response.
           request_json req = Inr data \<and> py_get data ''content'' PNone = Inr task \<and> truthy task
         \<and> agent_run s task = (Inr response, s')
         \<and> v = PDict [(''html_content'', content response),
                      (''messages'', PList (messages_spec (memory_messages s')))]"
  using assms
  by (auto simp: generate_notes_def try_body_def run_agent_def serializable_messages_spec
           split: sum.splits prod.splits if_splits)

lemma generate_notes_raise:
  "try_body agent_run s req = (Inl e, s') \<Longrightarrow>
   generate_notes agent_run s req = (Inl (outer_except e), s')"
  by (simp add: generate_notes_def)

lemma generate_notes_return:
  "try_body agent_run s req = (Inr v, s') \<Longrightarrow>
   generate_notes agent_run s req = (Inr v, s')"
  by (simp add: generate_notes_def)

lemma body_allowed_400_500 [simp]:
  "is_body_allowed_for_status_code 400" "is_body_allowed_for_status_code 500"
  by (simp_all add: is_body_allowed_for_status_code_def)

lemma post_generate_raise:
  "generate_notes agent_run s req = (Inl (HTTPException code d), s') \<Longrightarrow>
   is_body_allowed_for_status_code code \<Longrightarrow>
   post_generate agent_run s req = (\<lparr>status = code, body = PDict [(''detail'', PStr d)]\<rparr>, s')"
  by (simp add: post_generate_def)

lemma validate_dump:
  "HtmlResponse_validate (PDict [(''html_content'', h), (''messages'', PList ms)])
     = (case h of PStr html \<Rightarrow> Some \<lparr>html_content = html, messages = ms\<rparr> | _ \<Rightarrow> None)"
  by (cases h) (simp_all add: HtmlResponse_validate_def)

lemma post_generate_return:
  "generate_notes agent_run s req = (Inr v, s') \<Longrightarrow>
   post_generate agent_run s req
     = (case HtmlResponse_validate v of
          Some r \<Rightarrow> (\<lparr>status = 200, body = HtmlResponse_dump r\<rparr>, s')
        | None \<Rightarrow> (\<lparr>status = 500, body = PStr ''Internal Server Error''\<rparr>, s'))"
  by (simp add: post_generate_def)

lemma run_agent_state: "snd (run_agent agent_run s task) = snd (agent_run s task)"
  by (cases "agent_run s task") (auto simp: run_agent_def split: sum.splits)

lemma run_agent_observed:
  "fst (run_agent agent_run s task)
     = (case observed (agent_run s task) of
          Inl msg \<Rightarrow> Inl (HTTPException 500 (''An error occurred during generation: '' @ msg))
        | Inr (answer, msgs) \<Rightarrow> Inr (PDict [(''html_content'', answer), (''messages'', PList msgs)]))"
  by (cases "agent_run s task")
     (auto simp: run_agent_def observed_def serializable_messages_spec split: sum.splits)

lemma try_body_no_task:
  "request_task req = None \<Longrightarrow> try_body agent_run s1 req = (fst (try_body agent_run s2 req), s1)"
  by (auto simp: request_task_def try_body_def split: sum.splits if_splits)

lemma try_body_task:
  "request_task req = Some task \<Longrightarrow> try_body agent_run s req = run_agent agent_run s task"
  by (auto simp: request_task_def try_body_def split: sum.splits if_splits)

lemma generate_notes_fst:
  "fst (generate_notes agent_run s req)
     = (case fst (try_body agent_run s req) of Inl e \<Rightarrow> Inl (outer_except e) | Inr v \<Rightarrow> Inr v)"
  by (cases "try_body agent_run s req") (auto simp: generate_notes_def split: sum.splits)

lemma generate_notes_snd:
  "snd (generate_notes agent_run s req) = snd (try_body agent_run s req)"
  by (cases "try_body agent_run s req") (auto simp: generate_notes_def split: sum.splits)

lemma generate_notes_task:
  assumes "request_task req = Some task"
  shows "fst (generate_notes agent_run s req)
     = (case observed (agent_run s task) of
          Inl msg \<Rightarrow> Inl (HTTPException 500 (''An error occurred during generation: '' @ msg))
        | Inr (answer, msgs) \<Rightarrow> Inr (PDict [(''html_content'', answer), (''messages'', PList msgs)]))"
  unfolding generate_notes_fst try_body_task[OF assms] run_agent_observed
  by (cases "observed (agent_run s task)") auto

lemma generate_notes_task_same:
  assumes "request_task req = Some task"
  shows "fst (generate_notes agent_run s1 req) = fst (generate_notes agent_run s2 req)
         \<longleftrightarrow> observed (agent_run s1 task) = observed (agent_run s2 task)"
  unfolding generate_notes_task[OF assms]
  by (cases "observed (agent_run s1 task)"; cases "observed (agent_run s2 task)") auto

lemma post_generate_fst:
  "fst (post_generate agent_run s req)
     = (case fst (generate_notes agent_run s req) of
          Inl (HTTPException code d) \<Rightarrow>
            (if is_body_allowed_for_status_code code
             then \<lparr>status = code, body = PDict [(''detail'', PStr d)]\<rparr>
             else \<lparr>status = code, body = PStr []\<rparr>)
        | Inl e \<Rightarrow> \<lparr>status = 500, body = PStr ''Internal Server Error''\<rparr>
        | Inr v \<Rightarrow>
            (case HtmlResponse_validate v of
               Some r \<Rightarrow> \<lparr>status = 200, body = HtmlResponse_dump r\<rparr>
             | None \<Rightarrow> \<lparr>status = 500, body = PStr ''Internal Server Error''\<rparr>))"
  by (cases "generate_notes agent_run s req")
     (auto simp: post_generate_def split: sum.splits exn.splits option.splits)

lemma post_generate_snd:
  "snd (post_generate agent_run s req) = snd (generate_notes agent_run s req)"
  by (cases "generate_notes agent_run s req")
     (auto simp: post_generate_def split: sum.splits exn.splits option.splits)

lemma non_object_body:
  assumes "request_json req = Inr data" and "\<forall>kvs. data \<noteq> PDict kvs"
  shows "generate_notes agent_run s req
           = (Inl (HTTPException 500 (''Failed to process request: '' @ [CHR 0x27] @ type_name data
                @ ''' object has no attribute 'get'' @ [CHR 0x27])), s)"
  using assms by (cases data) (simp_all add: generate_notes_def try_body_def)

section \<open>Lemmas about the image-search adapter\<close>

lemma getitem_link: "has_link item \<Longrightarrow> py_getitem item ''link'' = Inr (link_of item)"
  by (cases item) (simp_all split: option.splits)

lemma getitem_no_link: "\<not> has_link item \<Longrightarrow> \<exists>e. py_getitem item ''link'' = Inl e"
  by (cases item) (simp_all split: option.splits)

lemma image_urls_all_links:
  "list_all has_link items \<Longrightarrow> image_urls items = Inr (map link_of items)"
  by (induction items) (simp_all add: getitem_link)

lemma image_urls_returns:
  "image_urls items = Inr urls \<Longrightarrow> list_all has_link items \<and> urls = map link_of items"
proof (induction items arbitrary: urls)
  case Nil
  then show ?case by simp
next
  case (Cons item items)
  show ?case
  proof (cases "has_link item")
    case True
    with Cons.prems obtain rest where "image_urls items = Inr rest" "urls = link_of item # rest"
      by (auto simp: getitem_link split: sum.splits)
    with Cons.IH[of rest] True show ?thesis by simp
  next
    case False
    with getitem_no_link[OF False] Cons.prems show ?thesis by auto
  qed
qed

lemma image_urls_first_missing:
  "list_all has_link pre \<Longrightarrow> py_getitem bad ''link'' = Inl e \<Longrightarrow>
   image_urls (pre @ bad # post) = Inl e"
  by (induction pre) (simp_all add: getitem_link)

lemma search_images_parsed:
  assumes "requests_get base_url (params self query) = Inr response"
      and "status_code response = 200"
      and "response_json response = Inr (PDict kvs)"
  shows "fst (search_images requests_get self query)
           = (case map_of kvs ''items'' of
                None \<Rightarrow> Inr []
              | Some items \<Rightarrow>
                  (case py_iter items of Inl e \<Rightarrow> Inl e | Inr its \<Rightarrow> image_urls its))"
  using assms by (simp add: search_images_def Let_def split: option.splits sum.splits)

lemma search_images_items:
  assumes "requests_get base_url (params self query) = Inr response"
      and "status_code response = 200"
      and "response_json response = Inr (PDict kvs)"
      and "map_of kvs ''items'' = Some (PList items)"
  shows "fst (search_images requests_get self query) = image_urls items"
  using search_images_parsed[of requests_get self query response kvs, OF assms(1-3)] assms(4) by simp

section \<open>Requests without content\<close>

text \<open>
  Claim C1. A request whose body is a JSON object without a truthy \<^verbatim>\<open>content\<close> entry
  (the key absent, or its value falsy: null, the empty string, and also false, zero, an
  empty list or object) makes the handler raise \<^verbatim>\<open>HTTPException\<close> with status 400 and
  the detail \<^verbatim>\<open>Missing 'content' in request body\<close>, so the route answers 400 with
  exactly that detail. The agent is not invoked and its state is untouched.
\<close>

theorem missing_content_400:
  assumes "request_json req = Inr (PDict kvs)"
      and "case map_of kvs ''content'' of None \<Rightarrow> True | Some v \<Rightarrow> \<not> truthy v"
  shows "generate_notes agent_run s req
           = (Inl (HTTPException 400 ''Missing 'content' in request body''), s)
       \<and> post_generate agent_run s req
           = (\<lparr>status = 400,
               body = PDict [(''detail'', PStr ''Missing 'content' in request body'')]\<rparr>, s)"
  using try_body_missing[OF assms, of agent_run s]
  by (simp add: generate_notes_def post_generate_def)

text \<open>The three cases the specification lists: the key absent, null, the empty string.\<close>

theorem missing_content_400_witness:
  "post_generate recording_agent \<lparr>memory_messages = [], internals = ()\<rparr>
       \<lparr>request_json = Inr (PDict [(''topic'', PStr ''graphs'')])\<rparr>
     = (\<lparr>status = 400,
         body = PDict [(''detail'', PStr ''Missing 'content' in request body'')]\<rparr>,
        \<lparr>memory_messages = [], internals = ()\<rparr>)
   \<and> post_generate recording_agent \<lparr>memory_messages = [], internals = ()\<rparr>
       \<lparr>request_json = Inr (PDict [(''content'', PNone)])\<rparr>
     = (\<lparr>status = 400,
         body = PDict [(''detail'', PStr ''Missing 'content' in request body'')]\<rparr>,
        \<lparr>memory_messages = [], internals = ()\<rparr>)
   \<and> post_generate recording_agent \<lparr>memory_messages = [], internals = ()\<rparr>
       \<lparr>request_json = Inr (PDict [(''content'', PStr [])])\<rparr>
     = (\<lparr>status = 400,
         body = PDict [(''detail'', PStr ''Missing 'content' in request body'')]\<rparr>,
        \<lparr>memory_messages = [], internals = ()\<rparr>)"
  using missing_content_400[of "\<lparr>request_json = Inr (PDict [(''topic'', PStr ''graphs'')])\<rparr>"
          "[(''topic'', PStr ''graphs'')]" recording_agent "\<lparr>memory_messages = [], internals = ()\<rparr>"]
        missing_content_400[of "\<lparr>request_json = Inr (PDict [(''content'', PNone)])\<rparr>"
          "[(''content'', PNone)]" recording_agent "\<lparr>memory_messages = [], internals = ()\<rparr>"]
        missing_content_400[of "\<lparr>request_json = Inr (PDict [(''content'', PStr [])])\<rparr>"
          "[(''content'', PStr [])]" recording_agent "\<lparr>memory_messages = [], internals = ()\<rparr>"]
  by simp

section \<open>The returned messages\<close>

text \<open>
  Claim C3. The comprehension never raises and returns exactly the role and content of
  the transcript messages that expose both attributes: messages lacking either are left
  out, and the kept ones stay in the order of the transcript (they are a subsequence of
  it). This list is what a successful call returns under \<^verbatim>\<open>messages\<close>, computed from
  the agent's memory as the run left it.
\<close>

theorem returned_messages:
  "serializable_messages msgs = Inr (map projection (filter exposes_both msgs))
   \<and> subseq (filter exposes_both msgs) msgs
   \<and> (generate_notes agent_run s req = (Inr v, s') \<longrightarrow>
        py_get v ''messages'' PNone
          = Inr (PList (map projection (filter exposes_both (memory_messages s')))))"
proof (intro conjI impI)
  show "serializable_messages msgs = Inr (map projection (filter exposes_both msgs))"
    using serializable_messages_spec[of msgs] by (simp add: messages_spec_def)
  show "subseq (filter exposes_both msgs) msgs"
    by simp
  assume "generate_notes agent_run s req = (Inr v, s')"
  from generate_notes_success[OF this]
  show "py_get v ''messages'' PNone
          = Inr (PList (map projection (filter exposes_both (memory_messages s'))))"
    by (auto simp: messages_spec_def)
qed

text \<open>
  A transcript of four messages, two of them without a role or without a content: the
  comprehension alone, and a call of the handler whose agent leaves that transcript.
\<close>

theorem returned_messages_witness:
  "serializable_messages
      [[(''role'', PStr ''user''), (''content'', PStr ''graphs'')],
       [(''role'', PStr ''tool'')],
       [(''content'', PStr ''orphan'')],
       [(''id'', PInt 7), (''content'', PNone), (''role'', PStr ''assistant'')]]
    = Inr [PDict [(''role'', PStr ''user''), (''content'', PStr ''graphs'')],
           PDict [(''role'', PStr ''assistant''), (''content'', PNone)]]
   \<and> (\<exists>v s'. generate_notes
          (replying_agent (PStr ''<p>notes</p>'')
            [[(''role'', PStr ''user''), (''content'', PStr ''graphs'')],
             [(''role'', PStr ''tool'')],
             [(''content'', PStr ''orphan'')],
             [(''id'', PInt 7), (''content'', PNone), (''role'', PStr ''assistant'')]])
          \<lparr>memory_messages = [], internals = 0\<rparr>
          \<lparr>request_json = Inr (PDict [(''content'', PStr ''graphs'')])\<rparr> = (Inr v, s')
        \<and> py_get v ''messages'' PNone
            = Inr (PList [PDict [(''role'', PStr ''user''), (''content'', PStr ''graphs'')],
                          PDict [(''role'', PStr ''assistant''), (''content'', PNone)]]))"
proof -
  let ?msgs = "[[(''role'', PStr ''user''), (''content'', PStr ''graphs'')],
       [(''role'', PStr ''tool'')],
       [(''content'', PStr ''orphan'')],
       [(''id'', PInt 7), (''content'', PNone), (''role'', PStr ''assistant'')]]"
  let ?kept = "[PDict [(''role'', PStr ''user''), (''content'', PStr ''graphs'')],
       PDict [(''role'', PStr ''assistant''), (''content'', PNone)]]"
  let ?agent = "replying_agent (PStr ''<p>notes</p>'') ?msgs"
  let ?start = "\<lparr>memory_messages = [], internals = 0::nat\<rparr>"
  let ?req = "\<lparr>request_json = Inr (PDict [(''content'', PStr ''graphs'')])\<rparr>"
  have kept: "map projection (filter exposes_both ?msgs) = ?kept"
    by (simp add: exposes_both_def projection_def)
  have "serializable_messages ?msgs = Inr (map projection (filter exposes_both ?msgs))"
    by (rule conjunct1[OF returned_messages])
  then have first: "serializable_messages ?msgs = Inr ?kept"
    unfolding kept .
  obtain v s' where run: "generate_notes ?agent ?start ?req = (Inr v, s')"
    and mem: "memory_messages s' = ?msgs"
    by (simp add: generate_notes_def try_body_def run_agent_def replying_agent_def
          serializable_messages_spec)
  from returned_messages[of ?msgs ?agent ?start ?req v s'] run
  have "py_get v ''messages'' PNone
          = Inr (PList (map projection (filter exposes_both (memory_messages s'))))"
    by blast
  then have "py_get v ''messages'' PNone = Inr (PList ?kept)"
    unfolding mem kept .
  with run first show ?thesis by blast
qed

section \<open>Failures\<close>

text \<open>
  Claim C4. When the request carries a truthy content and \<^verbatim>\<open>agent.run\<close> raises an
  exception \<open>e\<close>, the handler raises \<^verbatim>\<open>HTTPException\<close> with status 500 and the detail
  \<^verbatim>\<open>An error occurred during generation: \<close> followed by \<^verbatim>\<open>str(e)\<close>, and the route
  answers 500 with that detail.
\<close>

theorem agent_failure_500:
  assumes "request_json req = Inr data"
      and "py_get data ''content'' PNone = Inr task"
      and "truthy task"
      and "agent_run s task = (Inl e, s')"
  shows "generate_notes agent_run s req
           = (Inl (HTTPException 500 (''An error occurred during generation: '' @ str_exn e)), s')
       \<and> post_generate agent_run s req
           = (\<lparr>status = 500,
               body = PDict [(''detail'',
                        PStr (''An error occurred during generation: '' @ str_exn e))]\<rparr>, s')"
proof -
  have "try_body agent_run s req
          = (Inl (HTTPException 500 (''An error occurred during generation: '' @ str_exn e)), s')"
    using assms by (simp add: try_body_reaches_agent run_agent_raises)
  from generate_notes_raise[OF this]
  have g: "generate_notes agent_run s req
          = (Inl (HTTPException 500 (''An error occurred during generation: '' @ str_exn e)), s')"
    by simp
  with post_generate_raise[OF g] show ?thesis by simp
qed

theorem agent_failure_500_witness:
  "post_generate (raising_agent (OtherError ''RuntimeError'' ''model overloaded''))
       \<lparr>memory_messages = [], internals = ()\<rparr>
       \<lparr>request_json = Inr (PDict [(''content'', PStr ''graphs'')])\<rparr>
     = (\<lparr>status = 500,
         body = PDict [(''detail'',
                  PStr ''An error occurred during generation: model overloaded'')]\<rparr>,
        \<lparr>memory_messages = [], internals = ()\<rparr>)"
  using agent_failure_500[of "\<lparr>request_json = Inr (PDict [(''content'', PStr ''graphs'')])\<rparr>"
          "PDict [(''content'', PStr ''graphs'')]" "PStr ''graphs''"
          "raising_agent (OtherError ''RuntimeError'' ''model overloaded'')"
          "\<lparr>memory_messages = [], internals = ()\<rparr>"
          "OtherError ''RuntimeError'' ''model overloaded''"
          "\<lparr>memory_messages = [], internals = ()\<rparr>"]
  by (simp add: raising_agent_def)

text \<open>
  Claim C9. When reading the request body raises an exception \<open>e\<close> that is not an
  \<^verbatim>\<open>HTTPException\<close>, the handler raises \<^verbatim>\<open>HTTPException\<close> with status 500 and the
  detail \<^verbatim>\<open>Failed to process request: \<close> followed by \<^verbatim>\<open>str(e)\<close>, and the route answers
  500 with that detail. The agent is not invoked.
\<close>

theorem parse_failure_500:
  assumes "request_json req = Inl e" and "\<not> is_HTTPException e"
  shows "generate_notes agent_run s req
           = (Inl (HTTPException 500 (''Failed to process request: '' @ str_exn e)), s)
       \<and> post_generate agent_run s req
           = (\<lparr>status = 500,
               body = PDict [(''detail'', PStr (''Failed to process request: '' @ str_exn e))]\<rparr>, s)"
proof -
  have "try_body agent_run s req = (Inl e, s)"
    using assms(1) by (simp add: try_body_def)
  from generate_notes_raise[OF this] assms(2)
  have g: "generate_notes agent_run s req
          = (Inl (HTTPException 500 (''Failed to process request: '' @ str_exn e)), s)"
    by (cases e) simp_all
  with post_generate_raise[OF g] show ?thesis by simp
qed

theorem parse_failure_500_witness:
  "post_generate recording_agent \<lparr>memory_messages = [], internals = ()\<rparr>
       \<lparr>request_json = Inl (OtherError ''JSONDecodeError'' ''Expecting value: line 1 column 1 (char 0)'')\<rparr>
     = (\<lparr>status = 500,
         body = PDict [(''detail'',
                  PStr ''Failed to process request: Expecting value: line 1 column 1 (char 0)'')]\<rparr>,
        \<lparr>memory_messages = [], internals = ()\<rparr>)"
  using parse_failure_500[of
          "\<lparr>request_json = Inl (OtherError ''JSONDecodeError'' ''Expecting value: line 1 column 1 (char 0)'')\<rparr>"
          "OtherError ''JSONDecodeError'' ''Expecting value: line 1 column 1 (char 0)''"
          recording_agent "\<lparr>memory_messages = [], internals = ()\<rparr>"]
  by simp

text \<open>
  Claim C5 says that an \<^verbatim>\<open>HTTPException\<close> arising anywhere in the handler leaves it
  unchanged. One raised by \<^verbatim>\<open>agent.run\<close> does not: the inner \<^verbatim>\<open>except Exception\<close>
  clause catches it first, and the handler raises a new exception with status 500.
\<close>

theorem http_exception_wrapped_counterexample:
  "fst (generate_notes (raising_agent (HTTPException 404 ''Not Found''))
          \<lparr>memory_messages = [], internals = ()\<rparr>
          \<lparr>request_json = Inr (PDict [(''content'', PStr ''graphs'')])\<rparr>)
     = Inl (HTTPException 500 ''An error occurred during generation: 404: Not Found'')
   \<and> fst (generate_notes (raising_agent (HTTPException 404 ''Not Found''))
          \<lparr>memory_messages = [], internals = ()\<rparr>
          \<lparr>request_json = Inr (PDict [(''content'', PStr ''graphs'')])\<rparr>)
     \<noteq> Inl (HTTPException 404 ''Not Found'')"
  by (simp add: generate_notes_def try_body_def run_agent_def raising_agent_def str_nat.simps)

text \<open>
  Claim C5, amended. An \<^verbatim>\<open>HTTPException\<close> that leaves the body of the outer
  \<^verbatim>\<open>try\<close> is raised again with the same status code and the same detail: so is one
  raised while the request body is read, the 400 for a missing content, and the 500
  built by the inner handler. An \<^verbatim>\<open>HTTPException\<close> raised by the agent invocation is
  caught by the inner handler like any other exception and replaced by an
  \<^verbatim>\<open>HTTPException\<close> with status 500 whose detail is
  \<^verbatim>\<open>An error occurred during generation: \<close> followed by its \<^verbatim>\<open>str\<close>.
\<close>

theorem http_exception_reraised:
  "(try_body agent_run s req = (Inl (HTTPException code d), s') \<longrightarrow>
      generate_notes agent_run s req = (Inl (HTTPException code d), s'))
   \<and> (request_json req = Inl (HTTPException code d) \<longrightarrow>
      generate_notes agent_run s req = (Inl (HTTPException code d), s))
   \<and> (request_json req = Inr data \<and> py_get data ''content'' PNone = Inr task \<and> truthy task
        \<and> agent_run s task = (Inl (HTTPException code d), s') \<longrightarrow>
      generate_notes agent_run s req
        = (Inl (HTTPException 500 (''An error occurred during generation: ''
             @ str_exn (HTTPException code d))), s'))"
proof (intro conjI impI)
  assume "try_body agent_run s req = (Inl (HTTPException code d), s')"
  from generate_notes_raise[OF this]
  show "generate_notes agent_run s req = (Inl (HTTPException code d), s')" by simp
next
  assume "request_json req = Inl (HTTPException code d)"
  then have "try_body agent_run s req = (Inl (HTTPException code d), s)"
    by (simp add: try_body_def)
  from generate_notes_raise[OF this]
  show "generate_notes agent_run s req = (Inl (HTTPException code d), s)" by simp
next
  assume a: "request_json req = Inr data \<and> py_get data ''content'' PNone = Inr task \<and> truthy task
        \<and> agent_run s task = (Inl (HTTPException code d), s')"
  then have "try_body agent_run s req
      = (Inl (HTTPException 500 (''An error occurred during generation: ''
             @ str_exn (HTTPException code d))), s')"
    by (simp add: try_body_reaches_agent run_agent_raises)
  from generate_notes_raise[OF this]
  show "generate_notes agent_run s req
        = (Inl (HTTPException 500 (''An error occurred during generation: ''
             @ str_exn (HTTPException code d))), s')" by simp
qed

text \<open>
  The 400 for a missing content and an \<^verbatim>\<open>HTTPException\<close> of the body reader pass
  unchanged; a 404 raised by the agent comes out as a 500.
\<close>

theorem http_exception_reraised_witness:
  "generate_notes recording_agent \<lparr>memory_messages = [], internals = ()\<rparr>
       \<lparr>request_json = Inr (PDict [(''content'', PStr [])])\<rparr>
     = (Inl (HTTPException 400 ''Missing 'content' in request body''),
        \<lparr>memory_messages = [], internals = ()\<rparr>)
   \<and> generate_notes recording_agent \<lparr>memory_messages = [], internals = ()\<rparr>
       \<lparr>request_json = Inl (HTTPException 413 ''Request Entity Too Large'')\<rparr>
     = (Inl (HTTPException 413 ''Request Entity Too Large''), \<lparr>memory_messages = [], internals = ()\<rparr>)
   \<and> generate_notes (raising_agent (HTTPException 404 ''Not Found''))
       \<lparr>memory_messages = [], internals = ()\<rparr>
       \<lparr>request_json = Inr (PDict [(''content'', PStr ''graphs'')])\<rparr>
     = (Inl (HTTPException 500 ''An error occurred during generation: 404: Not Found''),
        \<lparr>memory_messages = [], internals = ()\<rparr>)"
proof -
  let ?start = "\<lparr>memory_messages = [], internals = ()\<rparr>"
  let ?empty = "\<lparr>request_json = Inr (PDict [(''content'', PStr [])])\<rparr>"
  let ?large = "\<lparr>request_json = Inl (HTTPException 413 ''Request Entity Too Large'')\<rparr>"
  let ?graphs = "\<lparr>request_json = Inr (PDict [(''content'', PStr ''graphs'')])\<rparr>"
  have body: "try_body recording_agent ?start ?empty
      = (Inl (HTTPException 400 ''Missing 'content' in request body''), ?start)"
    by (simp add: try_body_def)
  have "generate_notes recording_agent ?start ?empty
      = (Inl (HTTPException 400 ''Missing 'content' in request body''), ?start)"
    using http_exception_reraised[of recording_agent ?start ?empty
            400 "''Missing 'content' in request body''" ?start] body
    by blast
  moreover have "generate_notes recording_agent ?start ?large
      = (Inl (HTTPException 413 ''Request Entity Too Large''), ?start)"
    using http_exception_reraised[of recording_agent ?start ?large
            413 "''Request Entity Too Large''" ?start]
    by simp
  moreover have "generate_notes (raising_agent (HTTPException 404 ''Not Found'')) ?start ?graphs
      = (Inl (HTTPException 500 ''An error occurred during generation: 404: Not Found''), ?start)"
    using http_exception_reraised[of "raising_agent (HTTPException 404 ''Not Found'')" ?start ?graphs
            404 "''Not Found''" ?start "PDict [(''content'', PStr ''graphs'')]" "PStr ''graphs''"]
    by (simp add: raising_agent_def str_nat.simps)
  ultimately show ?thesis by blast
qed

section \<open>The shape of a successful response\<close>

text \<open>
  Claim C6. Whenever the handler returns, the value it returns is a dict with exactly
  the two keys \<^verbatim>\<open>html_content\<close> and \<^verbatim>\<open>messages\<close>, and \<^verbatim>\<open>messages\<close> is a list,
  however many messages the transcript holds. Whenever the route then answers 200, the
  body has exactly these two keys, \<^verbatim>\<open>html_content\<close> a string and \<^verbatim>\<open>messages\<close> a list:
  the response model lets nothing else through.
\<close>

theorem response_shape:
  assumes "generate_notes agent_run s req = (Inr v, s')"
  shows "(\<exists>h ms. v = PDict [(''html_content'', h), (''messages'', PList ms)])
       \<and> (\<forall>r. post_generate agent_run s req = (r, s') \<and> status r = 200 \<longrightarrow>
            (\<exists>html ms. body r = PDict [(''html_content'', PStr html), (''messages'', PList ms)]))"
proof -
  from generate_notes_success[OF assms] obtain h ms
    where v: "v = PDict [(''html_content'', h), (''messages'', PList ms)]"
    by blast
  have "\<exists>html ms. body r = PDict [(''html_content'', PStr html), (''messages'', PList ms)]"
    if "post_generate agent_run s req = (r, s')" and "status r = 200" for r
    using that post_generate_return[OF assms]
    by (cases h) (auto simp: v validate_dump HtmlResponse_dump_def)
  with v show ?thesis by blast
qed

text \<open>A successful call whose transcript is empty.\<close>

theorem response_shape_witness:
  "post_generate (replying_agent (PStr ''<h1>Graphs</h1>'') [])
       \<lparr>memory_messages = [], internals = 0\<rparr>
       \<lparr>request_json = Inr (PDict [(''content'', PStr ''graphs'')])\<rparr>
     = (\<lparr>status = 200,
         body = PDict [(''html_content'', PStr ''<h1>Graphs</h1>''), (''messages'', PList [])]\<rparr>,
        \<lparr>memory_messages = [], internals = 1\<rparr>)
   \<and> (\<exists>html ms. PDict [(''html_content'', PStr ''<h1>Graphs</h1>''), (''messages'', PList [])]
         = PDict [(''html_content'', PStr html), (''messages'', PList ms)])"
proof -
  have g: "generate_notes (replying_agent (PStr ''<h1>Graphs</h1>'') [])
       \<lparr>memory_messages = [], internals = 0\<rparr>
       \<lparr>request_json = Inr (PDict [(''content'', PStr ''graphs'')])\<rparr>
     = (Inr (PDict [(''html_content'', PStr ''<h1>Graphs</h1>''), (''messages'', PList [])]),
        \<lparr>memory_messages = [], internals = 1\<rparr>)"
    by (simp add: generate_notes_def try_body_def run_agent_def replying_agent_def)
  have p: "post_generate (replying_agent (PStr ''<h1>Graphs</h1>'') [])
       \<lparr>memory_messages = [], internals = 0\<rparr>
       \<lparr>request_json = Inr (PDict [(''content'', PStr ''graphs'')])\<rparr>
     = (\<lparr>status = 200,
         body = PDict [(''html_content'', PStr ''<h1>Graphs</h1>''), (''messages'', PList [])]\<rparr>,
        \<lparr>memory_messages = [], internals = 1\<rparr>)"
    by (simp add: post_generate_def g HtmlResponse_validate_def HtmlResponse_dump_def)
  from response_shape[OF g] p show ?thesis by simp
qed

section \<open>State shared between requests\<close>

text \<open>
  Claim C2 says that the response to a request does not depend on the requests served
  before it. The handler reads \<^verbatim>\<open>agent.memory.messages\<close> of the one module-level agent.
  With an agent whose memory keeps the messages of every run, the same request gets one
  answer as the first request of the process and another after an earlier request: the
  second answer also lists the messages of the earlier request.
\<close>

theorem shared_agent_counterexample:
  "fst (post_generate recording_agent
          (state_after recording_agent \<lparr>memory_messages = [], internals = ()\<rparr> [])
          \<lparr>request_json = Inr (PDict [(''content'', PStr ''graphs'')])\<rparr>)
   \<noteq> fst (post_generate recording_agent
          (state_after recording_agent \<lparr>memory_messages = [], internals = ()\<rparr>
             [\<lparr>request_json = Inr (PDict [(''content'', PStr ''trees'')])\<rparr>])
          \<lparr>request_json = Inr (PDict [(''content'', PStr ''graphs'')])\<rparr>)"
  by (simp add: post_generate_def generate_notes_def try_body_def run_agent_def
        recording_agent_def hasattr_def getattr_def HtmlResponse_validate_def HtmlResponse_dump_def)

text \<open>
  Claim C2, amended. The handler stores nothing of its own between requests: the only
  state that outlives a request is the module-level agent, and the handler changes it
  only by calling \<^verbatim>\<open>agent.run\<close>. A request that does not reach the agent (its body
  cannot be read, or holds no truthy content) gets the same response from any two agent
  states and leaves the state as it was. For a request that reaches the agent, two runs
  of the handler from any two agent states have the same outcome exactly when
  \<^verbatim>\<open>agent.run\<close> on the content of that request shows the same in both: it raises
  exceptions with the same \<^verbatim>\<open>str\<close>, or it returns the same content and leaves
  memories whose messages with a role and a content have the same projections in the
  same order. The HTTP responses are then the same too, and the state after the request
  is the one that run left.
\<close>

theorem response_determined_by_agent:
  "(request_task req = None \<longrightarrow>
        fst (generate_notes agent_run s1 req) = fst (generate_notes agent_run s2 req)
      \<and> fst (post_generate agent_run s1 req) = fst (post_generate agent_run s2 req)
      \<and> snd (post_generate agent_run s1 req) = s1)
   \<and> (request_task req = Some task \<longrightarrow>
        (fst (generate_notes agent_run s1 req) = fst (generate_notes agent_run s2 req)
           \<longleftrightarrow> observed (agent_run s1 task) = observed (agent_run s2 task))
      \<and> (observed (agent_run s1 task) = observed (agent_run s2 task) \<longrightarrow>
           fst (post_generate agent_run s1 req) = fst (post_generate agent_run s2 req))
      \<and> snd (post_generate agent_run s1 req) = snd (agent_run s1 task))"
proof (intro conjI impI)
  assume none: "request_task req = None"
  from try_body_no_task[OF none, of agent_run s1 s2]
  have body: "fst (try_body agent_run s1 req) = fst (try_body agent_run s2 req)"
    and state: "snd (try_body agent_run s1 req) = s1"
    by simp_all
  from body show same: "fst (generate_notes agent_run s1 req) = fst (generate_notes agent_run s2 req)"
    by (simp add: generate_notes_fst)
  then show "fst (post_generate agent_run s1 req) = fst (post_generate agent_run s2 req)"
    by (simp add: post_generate_fst)
  from state show "snd (post_generate agent_run s1 req) = s1"
    by (simp add: post_generate_snd generate_notes_snd)
next
  assume some: "request_task req = Some task"
  show "fst (generate_notes agent_run s1 req) = fst (generate_notes agent_run s2 req)
          \<longleftrightarrow> observed (agent_run s1 task) = observed (agent_run s2 task)"
    by (rule generate_notes_task_same[OF some])
  show "fst (post_generate agent_run s1 req) = fst (post_generate agent_run s2 req)"
    if "observed (agent_run s1 task) = observed (agent_run s2 task)"
    using that generate_notes_task_same[OF some, of agent_run s1 s2]
    by (simp add: post_generate_fst)
  show "snd (post_generate agent_run s1 req) = snd (agent_run s1 task)"
    by (simp add: post_generate_snd generate_notes_snd try_body_task[OF some] run_agent_state)
qed

text \<open>
  A request without content, served by an agent that keeps every message, from an empty
  and from a filled memory. A request with content, served by an agent that leaves the
  same memory after every run, from two states with different memories and internals:
  the same response. And the same request served by the agent that keeps every message,
  from the empty and from the filled memory: what the runs show differs, and so do the
  outcomes of the handler.
\<close>

theorem response_determined_by_agent_witness:
  "fst (post_generate recording_agent \<lparr>memory_messages = [], internals = ()\<rparr>
          \<lparr>request_json = Inr (PDict [(''content'', PStr [])])\<rparr>)
     = fst (post_generate recording_agent
          \<lparr>memory_messages = [[(''role'', PStr ''user''), (''content'', PStr ''trees'')]], internals = ()\<rparr>
          \<lparr>request_json = Inr (PDict [(''content'', PStr [])])\<rparr>)
   \<and> fst (post_generate (replying_agent (PStr ''<h1>Graphs</h1>'') [[(''role'', PStr ''user'')]])
          \<lparr>memory_messages = [], internals = 0\<rparr>
          \<lparr>request_json = Inr (PDict [(''content'', PStr ''graphs'')])\<rparr>)
     = fst (post_generate (replying_agent (PStr ''<h1>Graphs</h1>'') [[(''role'', PStr ''user'')]])
          \<lparr>memory_messages = [[(''role'', PStr ''user''), (''content'', PStr ''trees'')]], internals = 5\<rparr>
          \<lparr>request_json = Inr (PDict [(''content'', PStr ''graphs'')])\<rparr>)
   \<and> fst (generate_notes recording_agent \<lparr>memory_messages = [], internals = ()\<rparr>
          \<lparr>request_json = Inr (PDict [(''content'', PStr ''graphs'')])\<rparr>)
     \<noteq> fst (generate_notes recording_agent
          \<lparr>memory_messages = [[(''role'', PStr ''user''), (''content'', PStr ''trees'')]], internals = ()\<rparr>
          \<lparr>request_json = Inr (PDict [(''content'', PStr ''graphs'')])\<rparr>)"
proof -
  let ?none = "\<lparr>request_json = Inr (PDict [(''content'', PStr [])])\<rparr>"
  let ?graphs = "\<lparr>request_json = Inr (PDict [(''content'', PStr ''graphs'')])\<rparr>"
  let ?fresh = "\<lparr>memory_messages = [], internals = ()\<rparr>"
  let ?filled = "\<lparr>memory_messages = [[(''role'', PStr ''user''), (''content'', PStr ''trees'')]],
                  internals = ()\<rparr>"
  let ?agent = "replying_agent (PStr ''<h1>Graphs</h1>'') [[(''role'', PStr ''user'')]]"
  let ?zero = "\<lparr>memory_messages = [], internals = 0::nat\<rparr>"
  let ?five = "\<lparr>memory_messages = [[(''role'', PStr ''user''), (''content'', PStr ''trees'')]],
                internals = 5::nat\<rparr>"
  have none: "request_task ?none = None"
    and some: "request_task ?graphs = Some (PStr ''graphs'')"
    by (simp_all add: request_task_def)
  have same: "observed (?agent ?zero (PStr ''graphs'')) = observed (?agent ?five (PStr ''graphs''))"
    by (simp add: observed_def replying_agent_def)
  have differ: "observed (recording_agent ?fresh (PStr ''graphs''))
      \<noteq> observed (recording_agent ?filled (PStr ''graphs''))"
    by (simp add: observed_def recording_agent_def messages_spec_def exposes_both_def)
  have "fst (post_generate recording_agent ?fresh ?none)
      = fst (post_generate recording_agent ?filled ?none)"
    using response_determined_by_agent[of ?none recording_agent ?fresh ?filled] none
    by blast
  moreover have "fst (post_generate ?agent ?zero ?graphs) = fst (post_generate ?agent ?five ?graphs)"
    using response_determined_by_agent[of ?graphs ?agent ?zero ?five "PStr ''graphs''"] some same
    by blast
  moreover have "fst (generate_notes recording_agent ?fresh ?graphs)
      \<noteq> fst (generate_notes recording_agent ?filled ?graphs)"
    using response_determined_by_agent[of ?graphs recording_agent ?fresh ?filled "PStr ''graphs''"]
      some differ
    by blast
  ultimately show ?thesis by blast
qed

section \<open>The image-search adapter: results\<close>

text \<open>
  Claim C7. When the API answers with status 200 and a JSON object, \<^verbatim>\<open>search_images\<close>
  returns the empty list if the object has no \<^verbatim>\<open>items\<close>, and the \<^verbatim>\<open>link\<close> of each item,
  in the order of the response, if \<^verbatim>\<open>items\<close> is a list whose items each hold a
  \<^verbatim>\<open>link\<close>. Whenever it returns a list for a response with an \<^verbatim>\<open>items\<close> list, that list
  holds the links in order and is as long as the \<^verbatim>\<open>items\<close> list.
\<close>

theorem search_images_links:
  assumes "requests_get base_url (params self query) = Inr response"
      and "status_code response = 200"
      and "response_json response = Inr (PDict kvs)"
  shows "(map_of kvs ''items'' = None \<longrightarrow> fst (search_images requests_get self query) = Inr [])
       \<and> (\<forall>items. map_of kvs ''items'' = Some (PList items) \<and> list_all has_link items \<longrightarrow>
            fst (search_images requests_get self query) = Inr (map link_of items))
       \<and> (\<forall>items urls. map_of kvs ''items'' = Some (PList items)
              \<and> fst (search_images requests_get self query) = Inr urls \<longrightarrow>
            urls = map link_of items \<and> length urls = length items)"
proof (intro conjI allI impI)
  assume "map_of kvs ''items'' = None"
  with search_images_parsed[of requests_get self query response kvs, OF assms]
  show "fst (search_images requests_get self query) = Inr []" by simp
next
  fix items
  assume a: "map_of kvs ''items'' = Some (PList items) \<and> list_all has_link items"
  then have "fst (search_images requests_get self query) = image_urls items"
    using search_images_items[of requests_get self query response kvs items, OF assms] by simp
  with a show "fst (search_images requests_get self query) = Inr (map link_of items)"
    by (simp add: image_urls_all_links)
next
  fix items urls
  assume a: "map_of kvs ''items'' = Some (PList items)
              \<and> fst (search_images requests_get self query) = Inr urls"
  then have "image_urls items = Inr urls"
    using search_images_items[of requests_get self query response kvs items, OF assms] by simp
  from image_urls_returns[OF this]
  show "urls = map link_of items" "length urls = length items" by simp_all
qed

text \<open>A response without \<^verbatim>\<open>items\<close>, and one with two items.\<close>

theorem search_images_links_witness:
  "fst (search_images
          (answering \<lparr>status_code = 200, response_text = ''{}'',
             response_json = Inr (PDict [(''kind'', PStr ''customsearch#search'')])\<rparr>)
          \<lparr>api_key = PStr ''k'', cse_id = PStr ''c''\<rparr> ''graph'') = Inr []
   \<and> fst (search_images
          (answering \<lparr>status_code = 200, response_text = ''...'',
             response_json = Inr (PDict [(''items'',
               PList [PDict [(''title'', PStr ''a''), (''link'', PStr ''https://x/a.png'')],
                      PDict [(''link'', PStr ''https://x/b.png'')]])])\<rparr>)
          \<lparr>api_key = PStr ''k'', cse_id = PStr ''c''\<rparr> ''graph'')
       = Inr [PStr ''https://x/a.png'', PStr ''https://x/b.png'']
   \<and> length [PStr ''https://x/a.png'', PStr ''https://x/b.png'']
       = length [PDict [(''title'', PStr ''a''), (''link'', PStr ''https://x/a.png'')],
                 PDict [(''link'', PStr ''https://x/b.png'')]]"
proof -
  let ?self = "\<lparr>api_key = PStr ''k'', cse_id = PStr ''c''\<rparr>"
  let ?empty = "[(''kind'', PStr ''customsearch#search'')]"
  let ?first = "\<lparr>status_code = 200, response_text = ''{}'', response_json = Inr (PDict ?empty)\<rparr>"
  let ?items = "[PDict [(''title'', PStr ''a''), (''link'', PStr ''https://x/a.png'')],
                 PDict [(''link'', PStr ''https://x/b.png'')]]"
  let ?kvs = "[(''items'', PList ?items)]"
  let ?r = "\<lparr>status_code = 200, response_text = ''...'', response_json = Inr (PDict ?kvs)\<rparr>"
  have a1: "answering ?first base_url (params ?self ''graph'') = Inr ?first"
    and b1: "answering ?r base_url (params ?self ''graph'') = Inr ?r"
    by (simp_all add: answering_def)
  have a2: "status_code ?first = 200" and a3: "response_json ?first = Inr (PDict ?empty)"
    and b2: "status_code ?r = 200" and b3: "response_json ?r = Inr (PDict ?kvs)"
    by simp_all
  note none = search_images_links[of "answering ?first" ?self "''graph''" ?first ?empty,
      OF a1 a2 a3, THEN conjunct1, rule_format]
  note some = search_images_links[of "answering ?r" ?self "''graph''" ?r ?kvs,
      OF b1 b2 b3, THEN conjunct2, THEN conjunct1, rule_format, of ?items]
  note len = search_images_links[of "answering ?r" ?self "''graph''" ?r ?kvs,
      OF b1 b2 b3, THEN conjunct2, THEN conjunct2, rule_format,
      of ?items "[PStr ''https://x/a.png'', PStr ''https://x/b.png'']"]
  have 1: "fst (search_images (answering ?first) ?self ''graph'') = Inr []"
    by (rule none) simp
  have "fst (search_images (answering ?r) ?self ''graph'') = Inr (map link_of ?items)"
    by (rule some) simp
  then have 2: "fst (search_images (answering ?r) ?self ''graph'')
      = Inr [PStr ''https://x/a.png'', PStr ''https://x/b.png'']"
    by simp
  have "map_of ?kvs ''items'' = Some (PList ?items)
      \<and> fst (search_images (answering ?r) ?self ''graph'')
          = Inr [PStr ''https://x/a.png'', PStr ''https://x/b.png'']"
    using 2 by simp
  from len[OF this] 1 2 show ?thesis by blast
qed

section \<open>The image-search adapter: errors\<close>

text \<open>
  Claim C8. When the API answers with a status other than 200, \<^verbatim>\<open>search_images\<close> raises
  an \<^verbatim>\<open>Exception\<close> whose message is \<^verbatim>\<open>Google API Error: \<close>, the status code,
  \<^verbatim>\<open> - \<close> and the text of the response. It has then performed the one GET request and
  has not parsed the body: the outcome is the same whether or not the body is JSON.
\<close>

theorem search_images_error_status:
  assumes "requests_get base_url (params self query) = Inr response"
      and "status_code response \<noteq> 200"
  shows "search_images requests_get self query
           = (Inl (Exception (''Google API Error: '' @ str_int (status_code response)
                      @ '' - '' @ response_text response)),
              [HttpGet base_url (params self query)])
       \<and> JsonParse \<notin> set (snd (search_images requests_get self query))"
  using assms by (simp add: search_images_def)

text \<open>A 403 reply whose body is not JSON.\<close>

theorem search_images_error_status_witness:
  "search_images
      (answering \<lparr>status_code = 403, response_text = ''quota exceeded'',
                  response_json = Inl (OtherError ''JSONDecodeError'' ''Expecting value'')\<rparr>)
      \<lparr>api_key = PNone, cse_id = PNone\<rparr> ''graph''
    = (Inl (Exception ''Google API Error: 403 - quota exceeded''),
       [HttpGet ''https://www.googleapis.com/customsearch/v1''
          [(''q'', PStr ''graph''), (''key'', PNone), (''cx'', PNone),
           (''searchType'', PStr ''image''), (''num'', PInt 3)]])"
  using search_images_error_status[of
          "answering \<lparr>status_code = 403, response_text = ''quota exceeded'',
                  response_json = Inl (OtherError ''JSONDecodeError'' ''Expecting value'')\<rparr>"
          "\<lparr>api_key = PNone, cse_id = PNone\<rparr>" "''graph''"
          "\<lparr>status_code = 403, response_text = ''quota exceeded'',
                  response_json = Inl (OtherError ''JSONDecodeError'' ''Expecting value'')\<rparr>"]
  by (simp add: answering_def base_url_def params_def str_int_def str_nat.simps)

text \<open>
  Claim C10. For a 200 response whose \<^verbatim>\<open>items\<close> is a list, \<^verbatim>\<open>search_images\<close> returns
  normally exactly when every item holds a \<^verbatim>\<open>link\<close> key. If some item does not, the
  call raises: the exception is the one raised by \<^verbatim>\<open>item['link']\<close> at the first such
  item, and no list is returned, not even of the links before it.
\<close>

theorem search_images_needs_links:
  assumes "requests_get base_url (params self query) = Inr response"
      and "status_code response = 200"
      and "response_json response = Inr (PDict kvs)"
      and "map_of kvs ''items'' = Some (PList items)"
  shows "((\<exists>urls. fst (search_images requests_get self query) = Inr urls) \<longleftrightarrow> list_all has_link items)
       \<and> (\<not> list_all has_link items \<longrightarrow> (\<exists>e. fst (search_images requests_get self query) = Inl e))
       \<and> (\<forall>pre bad post. items = pre @ bad # post \<and> list_all has_link pre \<and> \<not> has_link bad \<longrightarrow>
            (\<exists>e. py_getitem bad ''link'' = Inl e
                \<and> fst (search_images requests_get self query) = Inl e))"
proof -
  have eq: "fst (search_images requests_get self query) = image_urls items"
    by (rule search_images_items[of requests_get self query response kvs items, OF assms])
  have 1: "(\<exists>urls. image_urls items = Inr urls) \<longleftrightarrow> list_all has_link items"
    using image_urls_returns image_urls_all_links by blast
  have 2: "\<not> list_all has_link items \<longrightarrow> (\<exists>e. image_urls items = Inl e)"
    using 1 by (cases "image_urls items") auto
  have 3: "\<exists>e. py_getitem bad ''link'' = Inl e \<and> image_urls items = Inl e"
    if "items = pre @ bad # post \<and> list_all has_link pre \<and> \<not> has_link bad" for pre bad post
  proof -
    from that getitem_no_link obtain e where "py_getitem bad ''link'' = Inl e" by blast
    with that image_urls_first_missing[of pre bad e post] show ?thesis by auto
  qed
  from 1 2 3 show ?thesis unfolding eq by blast
qed

text \<open>Three items, the second without a link: the call raises \<^verbatim>\<open>KeyError('link')\<close>.\<close>

theorem search_images_needs_links_witness:
  "fst (search_images
          (answering \<lparr>status_code = 200, response_text = ''...'',
             response_json = Inr (PDict [(''items'',
               PList [PDict [(''link'', PStr ''https://x/a.png'')],
                      PDict [(''title'', PStr ''no link'')],
                      PDict [(''link'', PStr ''https://x/c.png'')]])])\<rparr>)
          \<lparr>api_key = PStr ''k'', cse_id = PStr ''c''\<rparr> ''graph'')
     = Inl (KeyError ''link'')"
proof -
  let ?items = "[PDict [(''link'', PStr ''https://x/a.png'')],
                 PDict [(''title'', PStr ''no link'')],
                 PDict [(''link'', PStr ''https://x/c.png'')]]"
  let ?kvs = "[(''items'', PList ?items)]"
  let ?r = "\<lparr>status_code = 200, response_text = ''...'', response_json = Inr (PDict ?kvs)\<rparr>"
  let ?self = "\<lparr>api_key = PStr ''k'', cse_id = PStr ''c''\<rparr>"
  have h1: "answering ?r base_url (params ?self ''graph'') = Inr ?r"
    by (simp add: answering_def)
  have h2: "status_code ?r = 200" and h3: "response_json ?r = Inr (PDict ?kvs)"
    and h4: "map_of ?kvs ''items'' = Some (PList ?items)"
    by simp_all
  note t = search_images_needs_links[of "answering ?r" ?self "''graph''" ?r ?kvs ?items,
      OF h1 h2 h3 h4]
  have split: "?items = [PDict [(''link'', PStr ''https://x/a.png'')]]
      @ PDict [(''title'', PStr ''no link'')] # [PDict [(''link'', PStr ''https://x/c.png'')]]
    \<and> list_all has_link [PDict [(''link'', PStr ''https://x/a.png'')]]
    \<and> \<not> has_link (PDict [(''title'', PStr ''no link'')])"
    by simp
  from t[THEN conjunct2, THEN conjunct2, rule_format, OF split]
  obtain e where "py_getitem (PDict [(''title'', PStr ''no link'')]) ''link'' = Inl e"
    and "fst (search_images (answering ?r) ?self ''graph'') = Inl e"
    by blast
  then show ?thesis by simp
qed

end
